theory Spec2Isabelle
  imports Complex_Main
begin

section \<open>Decoded frames\<close>

text \<open>
  A frame is the value \<^verbatim>\<open>JSON.parse(event.data)\<close> returns. \<open>JUndefined\<close> is not a
  JSON value: it is what JavaScript yields when a property that is absent is read.
  Objects are association lists in key order; a decoded object has distinct keys.
\<close>

datatype json =
    JUndefined
  | JNull
  | JBool bool
  | JNum rat
  | JStr string
  | JArr "json list"
  | JObj "(string \<times> json) list"

datatype error = TypeError | SyntaxError

text \<open>JavaScript truthiness, as \<^verbatim>\<open>a ? b : c\<close>, \<^verbatim>\<open>a || b\<close> and \<^verbatim>\<open>if (a)\<close> read it.\<close>

fun truthy :: "json \<Rightarrow> bool" where
  "truthy JUndefined = False"
| "truthy JNull = False"
| "truthy (JBool b) = b"
| "truthy (JNum n) = (n \<noteq> 0)"
| "truthy (JStr s) = (s \<noteq> [])"
| "truthy (JArr xs) = True"
| "truthy (JObj kvs) = True"

fun nullish :: "json \<Rightarrow> bool" where
  "nullish JUndefined = True"
| "nullish JNull = True"
| "nullish v = False"

text \<open>\<^verbatim>\<open>a || b\<close>\<close>

definition or_js :: "json \<Rightarrow> json \<Rightarrow> json" where
  "or_js a b = (if truthy a then a else b)"

text \<open>\<^verbatim>\<open>Array.isArray(v)\<close>\<close>

fun isArray :: "json \<Rightarrow> bool" where
  "isArray (JArr xs) = True"
| "isArray v = False"

text \<open>
  \<^verbatim>\<open>v.k\<close> for a value \<open>v\<close> that is neither null nor undefined, and a key \<open>k\<close> that no
  prototype defines (the source reads \<open>event\<close>, \<open>type\<close>, \<open>data\<close>, \<open>balance\<close> and
  \<open>message\<close> only).
\<close>

fun getProp :: "string \<Rightarrow> json \<Rightarrow> json" where
  "getProp k (JObj kvs) = (case map_of kvs k of Some v \<Rightarrow> v | None \<Rightarrow> JUndefined)"
| "getProp k v = JUndefined"

text \<open>\<^verbatim>\<open>v?.k\<close>\<close>

definition getPropOpt :: "string \<Rightarrow> json \<Rightarrow> json" where
  "getPropOpt k v = (if nullish v then JUndefined else getProp k v)"

text \<open>\<^verbatim>\<open>String.prototype.includes\<close>: \<open>sub\<close> occurs in \<open>s\<close> at some position.\<close>

fun includes_str :: "string \<Rightarrow> string \<Rightarrow> bool" where
  "includes_str [] sub = (sub = [])"
| "includes_str (c # cs) sub = (take (length sub) (c # cs) = sub \<or> includes_str cs sub)"

text \<open>
  \<^verbatim>\<open>messageType?.includes(sub)\<close> on a value of any type: undefined for null and
  undefined, the substring test on a string, the membership test on an array, and a
  TypeError (\<open>includes\<close> is not a function) on a boolean, a number or an object.
  The result is only read for its truthiness.
\<close>

fun includes_js :: "json \<Rightarrow> string \<Rightarrow> error + bool" where
  "includes_js JUndefined sub = Inr False"
| "includes_js JNull sub = Inr False"
| "includes_js (JStr s) sub = Inr (includes_str s sub)"
| "includes_js (JArr xs) sub = Inr (List.member xs (JStr sub))"
| "includes_js v sub = Inl TypeError"

section \<open>Callbacks\<close>

text \<open>
  \<^verbatim>\<open>WebSocketCallbacks\<close> and \<^verbatim>\<open>WebSocketClientCallbacks\<close> are objects whose properties
  are all optional. A registration is a map from the property name to the handler, a
  handler being identified by a number; \<^verbatim>\<open>{ ...a, ...b }\<close> is \<open>a ++ b\<close>. What a handler
  does is outside the services: invoking one is recorded as a \<open>call\<close>, with the arguments
  passed, and the handler is taken to return normally without calling back into the
  service.
\<close>

datatype cbname =
    OnBotStatus | OnBalance | OnPositions | OnIncomeHistory | OnSpotOrders
  | OnScanSignal | OnError | OnConnect | OnDisconnect

type_synonym callbacks = "cbname \<Rightarrow> nat option"

datatype call = Call cbname nat "json list"

text \<open>\<^verbatim>\<open>this.callbacks.name?.(args)\<close>\<close>

definition invoke :: "callbacks \<Rightarrow> cbname \<Rightarrow> json list \<Rightarrow> call list" where
  "invoke cbs name args = (case cbs name of None \<Rightarrow> [] | Some h \<Rightarrow> [Call name h args])"

section \<open>Message normalizer of the account channel\<close>

text \<open>
  \<^verbatim>\<open>WebSocketService.handleMessage\<close> (websocket.ts). The result is the list of callback
  invocations it makes, or the exception it throws (which \<^verbatim>\<open>onmessage\<close> catches).
  Reading \<^verbatim>\<open>message.event\<close> of a null frame throws.
\<close>

definition messageType :: "json \<Rightarrow> json" where
  "messageType message = or_js (getProp ''event'' message) (getProp ''type'' message)"

definition messageData :: "json \<Rightarrow> json" where
  "messageData message = getProp ''data'' message"

definition handleMessage :: "callbacks \<Rightarrow> json \<Rightarrow> error + call list" where
  "handleMessage cbs message =
    (if nullish message then Inl TypeError
     else
       let messageType = messageType message;
           data = messageData message
       in
       if messageType = JStr ''bot_status'' \<or> messageType = JStr ''status_update'' then
         Inr (invoke cbs OnBotStatus [data])
       else if messageType = JStr ''balance'' then
         Inr (invoke cbs OnBalance [data])
       else if messageType = JStr ''balance_update'' \<or> messageType = JStr ''account_update'' then
         (if getPropOpt ''balance'' data \<noteq> JUndefined
          then Inr (invoke cbs OnBalance [getProp ''balance'' data])
          else Inr (invoke cbs OnBalance [data]))
       else if messageType = JStr ''positions'' then
         (let positionsArray =
                (if isArray data then data else (if truthy data then JArr [data] else JArr []))
          in Inr (invoke cbs OnPositions [positionsArray]))
       else if messageType = JStr ''position_update'' then
         (let positionUpdateArray = (if isArray data then data else JArr [data])
          in Inr (invoke cbs OnPositions [positionUpdateArray]))
       else if messageType = JStr ''income_history'' then
         (let incomeArray = (if isArray data then data else JArr [])
          in Inr (invoke cbs OnIncomeHistory [incomeArray]))
       else if messageType = JStr ''spot_orders'' then
         (let spotOrdersArray = (if isArray data then data else JArr [])
          in Inr (invoke cbs OnSpotOrders [spotOrdersArray]))
       else if messageType = JStr ''error'' then
         Inr (invoke cbs OnError
                [or_js (or_js (getPropOpt ''message'' data) data) (JStr ''Unknown error'')])
       else
         (case includes_js messageType ''balance'' of
            Inl e \<Rightarrow> Inl e
          | Inr hasBalance \<Rightarrow>
         (case includes_js messageType ''account'' of
            Inl e \<Rightarrow> Inl e
          | Inr hasAccount \<Rightarrow>
         (if hasBalance \<or> hasAccount then Inr (invoke cbs OnBalance [data])
          else
            (case includes_js messageType ''position'' of
               Inl e \<Rightarrow> Inl e
             | Inr hasPosition \<Rightarrow>
                 if hasPosition
                 then Inr (invoke cbs OnPositions [if isArray data then data else JArr [data]])
                 else Inr [])))))"

section \<open>Message normalizer of the scan-signal channel\<close>

text \<open>
  \<^verbatim>\<open>WebSocketClientService.handleMessage\<close> (websocketClient.ts): a frame that is an
  array is the legacy shape of a signal batch; otherwise the \<open>type\<close> field decides.
\<close>

definition handleClientMessage :: "callbacks \<Rightarrow> json \<Rightarrow> error + call list" where
  "handleClientMessage cbs message =
    (if isArray message then Inr (invoke cbs OnScanSignal [message])
     else if nullish message then Inl TypeError
     else if getProp ''type'' message = JStr ''scan_signal'' then
       (if isArray (getProp ''data'' message)
        then Inr (invoke cbs OnScanSignal [getProp ''data'' message])
        else Inr [])
     else if getProp ''type'' message = JStr ''error'' then
       Inr (invoke cbs OnError
              [or_js (or_js (getPropOpt ''message'' (getProp ''data'' message))
                            (getProp ''data'' message))
                     (JStr ''Unknown error'')])
     else Inr [])"

section \<open>Connection manager\<close>

text \<open>
  \<^verbatim>\<open>WebSocketService\<close> (websocket.ts, the account channel) and
  \<^verbatim>\<open>WebSocketClientService\<close> (websocketClient.ts, the scan-signal channel) declare the
  same fields, and their \<^verbatim>\<open>connect\<close>, \<^verbatim>\<open>disconnect\<close>, \<^verbatim>\<open>updateCallbacks\<close>,
  \<^verbatim>\<open>isConnected\<close> and \<^verbatim>\<open>getIsConnecting\<close> have the same bodies apart from the log
  output. They differ in the path of the URL and in \<^verbatim>\<open>handleMessage\<close>. The model has
  one state type for both; the field \<open>channel\<close> says which class the object is.

  The state holds the fields of the service object, and what the object reads and
  writes around it: the \<^verbatim>\<open>WebSocket\<close> objects created so far with their
  \<^verbatim>\<open>readyState\<close> (a socket reference is an index into \<open>sockets\<close>), the number of
  pending \<^verbatim>\<open>setTimeout\<close> callbacks, the \<open>auth_token\<close> entry of \<^verbatim>\<open>localStorage\<close>,
  whether the \<^verbatim>\<open>WebSocket\<close> constructor accepts the URL (it throws otherwise), and the
  callback invocations made so far.
\<close>

datatype channel = Account | Client

datatype readyState = CONNECTING | OPEN | CLOSING | CLOSED

type_synonym sockref = nat

record service =
  channel :: channel
  ws :: "sockref option"
  reconnectAttempts :: nat
  callbacks :: callbacks
  isConnecting :: bool
  shouldReconnect :: bool
  sockets :: "readyState list"
  timers :: nat
  auth_token :: "string option"
  urlAccepted :: bool
  calls :: "call list"

definition maxReconnectAttempts :: nat where
  "maxReconnectAttempts = 5"

definition reconnectDelay :: nat where
  "reconnectDelay = 3000"

text \<open>The object as its class initialises it, in a page that has created no socket.\<close>

definition init :: "channel \<Rightarrow> string option \<Rightarrow> bool \<Rightarrow> service" where
  "init ch tok ok =
    \<lparr> channel = ch, ws = None, reconnectAttempts = 0, callbacks = Map.empty,
      isConnecting = False, shouldReconnect = True, sockets = [], timers = 0,
      auth_token = tok, urlAccepted = ok, calls = [] \<rparr>"

text \<open>\<^verbatim>\<open>r.readyState\<close>\<close>

definition readyStateOf :: "service \<Rightarrow> sockref \<Rightarrow> readyState option" where
  "readyStateOf s r = (if r < length (sockets s) then Some (sockets s ! r) else None)"

text \<open>
  \<^verbatim>\<open>r.close()\<close>: a socket that is connecting or open starts closing; on a socket that is
  closing or closed the call does nothing.
\<close>

definition sock_close :: "sockref \<Rightarrow> service \<Rightarrow> service" where
  "sock_close r s =
    (if readyStateOf s r = Some CONNECTING \<or> readyStateOf s r = Some OPEN
     then s\<lparr>sockets := (sockets s)[r := CLOSING]\<rparr>
     else s)"

text \<open>\<^verbatim>\<open>this.callbacks.name?.(args)\<close> on the state.\<close>

definition fire :: "cbname \<Rightarrow> json list \<Rightarrow> service \<Rightarrow> service" where
  "fire name args s = s\<lparr>calls := calls s @ invoke (callbacks s) name args\<rparr>"

text \<open>\<^verbatim>\<open>if (token)\<close> on \<^verbatim>\<open>localStorage.getItem('auth_token')\<close>: null and the empty string are falsy.\<close>

definition has_token :: "service \<Rightarrow> bool" where
  "has_token s = (case auth_token s of None \<Rightarrow> False | Some t \<Rightarrow> t \<noteq> [])"

definition updateCallbacks :: "callbacks \<Rightarrow> service \<Rightarrow> service" where
  "updateCallbacks cbs s = s\<lparr>callbacks := callbacks s ++ cbs\<rparr>"

definition isConnected :: "service \<Rightarrow> bool" where
  "isConnected s = (case ws s of None \<Rightarrow> False | Some r \<Rightarrow> readyStateOf s r = Some OPEN)"

definition getIsConnecting :: "service \<Rightarrow> bool" where
  "getIsConnecting s =
    (isConnecting s \<or> (case ws s of None \<Rightarrow> False | Some r \<Rightarrow> readyStateOf s r = Some CONNECTING))"

text \<open>
  The body of the \<^verbatim>\<open>try\<close> block of \<^verbatim>\<open>connect\<close>: \<open>Inl\<close> is an exception that reaches
  the \<^verbatim>\<open>catch\<close>. The handlers the source attaches to the new socket are \<open>onopen\<close>,
  \<open>onmessage\<close>, \<open>onerror\<close> and \<open>onclose\<close> below, with \<open>wsRef\<close> the new reference.
\<close>

definition connect_try :: "service \<Rightarrow> error + service" where
  "connect_try s =
    (if \<not> has_token s then
       Inr (fire OnError [JStr ''No authentication token found. Please login again.'']
              (s\<lparr>isConnecting := False\<rparr>))
     else if \<not> urlAccepted s then Inl SyntaxError
     else Inr (s\<lparr>ws := Some (length (sockets s)), sockets := sockets s @ [CONNECTING]\<rparr>))"

definition connect :: "callbacks \<Rightarrow> service \<Rightarrow> service" where
  "connect cbs s =
    (if isConnected s then updateCallbacks cbs s
     else if isConnecting s then updateCallbacks cbs s
     else
       let s1 = s\<lparr>callbacks := callbacks s ++ cbs, shouldReconnect := True, isConnecting := True\<rparr>
       in case connect_try s1 of
            Inr s2 \<Rightarrow> s2
          | Inl e \<Rightarrow>
              fire OnError [JStr ''Failed to create WebSocket connection'']
                (s1\<lparr>isConnecting := False\<rparr>))"

text \<open>\<^verbatim>\<open>ws.onopen\<close> of the socket \<open>wsRef\<close>.\<close>

definition onopen :: "sockref \<Rightarrow> service \<Rightarrow> service" where
  "onopen wsRef s =
    (if ws s \<noteq> Some wsRef \<or> \<not> shouldReconnect s then
       (case ws s of None \<Rightarrow> s | Some r \<Rightarrow> sock_close r s)
     else fire OnConnect [] (s\<lparr>isConnecting := False, reconnectAttempts := 0\<rparr>))"

text \<open>
  \<^verbatim>\<open>ws.onmessage\<close>: \<open>frame\<close> is \<open>None\<close> when \<^verbatim>\<open>JSON.parse\<close> rejects the text. Every
  exception is caught and logged.
\<close>

definition onmessage :: "json option \<Rightarrow> service \<Rightarrow> service" where
  "onmessage frame s =
    (case frame of
       None \<Rightarrow> s
     | Some message \<Rightarrow>
         (case (if channel s = Account then handleMessage (callbacks s) message
                else handleClientMessage (callbacks s) message) of
            Inl e \<Rightarrow> s
          | Inr cs \<Rightarrow> s\<lparr>calls := calls s @ cs\<rparr>))"

text \<open>\<^verbatim>\<open>ws.onerror\<close>: \<open>etype\<close> is \<^verbatim>\<open>error?.type\<close> of the event.\<close>

definition onerror :: "string \<Rightarrow> service \<Rightarrow> service" where
  "onerror etype s =
    fire OnError
      [JStr (''WebSocket connection error: '' @ (if etype \<noteq> [] then etype else ''Unknown error''))]
      (s\<lparr>isConnecting := False\<rparr>)"

text \<open>The function \<^verbatim>\<open>onclose\<close> passes to \<^verbatim>\<open>setTimeout\<close>.\<close>

definition reconnectTimer :: "service \<Rightarrow> service" where
  "reconnectTimer s =
    (if has_token s then connect (callbacks s) s
     else fire OnError [JStr ''Authentication token expired. Please login again.'']
            (s\<lparr>shouldReconnect := False\<rparr>))"

text \<open>\<^verbatim>\<open>ws.onclose\<close> of the socket \<open>wsRef\<close>, for a close event with the code \<open>code\<close>.\<close>

definition onclose :: "sockref \<Rightarrow> nat \<Rightarrow> service \<Rightarrow> service" where
  "onclose wsRef code s =
    (if ws s \<noteq> Some wsRef then s
     else
       let s1 = fire OnDisconnect [] (s\<lparr>isConnecting := False, ws := None\<rparr>)
       in
       if code = 1008 then
         fire OnError [JStr ''Authentication failed. Please login again.'']
           (s1\<lparr>shouldReconnect := False\<rparr>)
       else if shouldReconnect s1 \<and> reconnectAttempts s1 < maxReconnectAttempts then
         s1\<lparr>reconnectAttempts := reconnectAttempts s1 + 1, timers := timers s1 + 1\<rparr>
       else if reconnectAttempts s1 \<ge> maxReconnectAttempts then
         fire OnError [JStr ''Failed to reconnect to WebSocket server after multiple attempts'']
           (s1\<lparr>shouldReconnect := False\<rparr>)
       else s1)"

definition disconnect :: "service \<Rightarrow> service" where
  "disconnect s =
    (let s1 = s\<lparr>shouldReconnect := False, isConnecting := False\<rparr>;
         s2 = (case ws s1 of
                 None \<Rightarrow> s1
               | Some r \<Rightarrow>
                   (if readyStateOf s1 r = Some CONNECTING \<or> readyStateOf s1 r = Some OPEN
                    then sock_close r s1 else s1)\<lparr>ws := None\<rparr>)
     in s2\<lparr>callbacks := Map.empty\<rparr>)"

subsection \<open>Events\<close>

text \<open>
  What can happen to a service object: a call of one of its public methods, an event of
  one of the sockets it created, the firing of a reconnect timer, and a change of the
  token in \<^verbatim>\<open>localStorage\<close>. The browser sets \<^verbatim>\<open>readyState\<close> before it
  dispatches \<^verbatim>\<open>open\<close> and \<^verbatim>\<open>close\<close>; it opens only a socket that is connecting, and
  delivers nothing for a socket that is closed. An event that the browser cannot
  deliver leaves the state as it is. The browser reports a failure as an \<^verbatim>\<open>error\<close>
  event followed by a \<^verbatim>\<open>close\<close> event; here they are two events.
\<close>

datatype event =
    Connect callbacks
  | Disconnect
  | UpdateCallbacks callbacks
  | SockOpen sockref
  | SockMessage sockref "json option"
  | SockError sockref
  | SockClose sockref nat
  | TimerFire
  | SetToken "string option"

definition live :: "readyState option \<Rightarrow> bool" where
  "live st = (st = Some CONNECTING \<or> st = Some OPEN)"

fun step :: "service \<Rightarrow> event \<Rightarrow> service" where
  "step s (Connect cbs) = connect cbs s"
| "step s Disconnect = disconnect s"
| "step s (UpdateCallbacks cbs) = updateCallbacks cbs s"
| "step s (SockOpen r) =
     (if readyStateOf s r = Some CONNECTING
      then onopen r (s\<lparr>sockets := (sockets s)[r := OPEN]\<rparr>) else s)"
| "step s (SockMessage r frame) =
     (if readyStateOf s r = Some OPEN then onmessage frame s else s)"
| "step s (SockError r) =
     (if readyStateOf s r \<noteq> None \<and> readyStateOf s r \<noteq> Some CLOSED
      then onerror ''error'' s else s)"
| "step s (SockClose r code) =
     (if readyStateOf s r \<noteq> None \<and> readyStateOf s r \<noteq> Some CLOSED
      then onclose r code (s\<lparr>sockets := (sockets s)[r := CLOSED]\<rparr>) else s)"
| "step s TimerFire =
     (if timers s > 0 then reconnectTimer (s\<lparr>timers := timers s - 1\<rparr>) else s)"
| "step s (SetToken tok) = s\<lparr>auth_token := tok\<rparr>"

definition run :: "service \<Rightarrow> event list \<Rightarrow> service" where
  "run s evs = foldl step s evs"

text \<open>The sockets that are connecting or open.\<close>

definition liveSockets :: "service \<Rightarrow> sockref list" where
  "liveSockets s = filter (\<lambda>r. live (readyStateOf s r)) [0..<length (sockets s)]"

section \<open>Signal chart: navigation\<close>

text \<open>
  The component \<^verbatim>\<open>SignalChart\<close>. Of its state the handlers below use the displayed
  symbol, the selected candle, the start of a touch and the number of loaded candles
  (\<^verbatim>\<open>data.open.length\<close>, \<open>None\<close> while no data is loaded). \<open>emitted\<close> records the
  calls of the props \<^verbatim>\<open>onClose\<close> and \<^verbatim>\<open>onSymbolChange\<close>, which are optional.
\<close>

datatype chart_call = CloseChart | SymbolChange string

record props =
  symbolList :: "string list"
  onClose :: bool
  onSymbolChange :: bool

record chart =
  currentSymbol :: string
  selectedIndex :: "nat option"
  touchStartX :: "rat option"
  touchStartY :: "rat option"
  totalCandles :: "nat option"
  emitted :: "chart_call list"

text \<open>\<^verbatim>\<open>xs.indexOf(x)\<close>, \<open>None\<close> for \<open>-1\<close>.\<close>

fun indexOf :: "'a list \<Rightarrow> 'a \<Rightarrow> nat option" where
  "indexOf [] x = None"
| "indexOf (y # ys) x = (if y = x then Some 0 else map_option Suc (indexOf ys x))"

text \<open>\<^verbatim>\<open>xs[i]\<close>, \<open>None\<close> for undefined.\<close>

definition elemAt :: "'a list \<Rightarrow> nat \<Rightarrow> 'a option" where
  "elemAt xs i = (if i < length xs then Some (xs ! i) else None)"

text \<open>
  The tail both handlers share, \<^verbatim>\<open>if (newIndex !== currentIndex && symbolList[newIndex])\<close>:
  an undefined or empty symbol is falsy. \<open>clearSelection\<close> says whether the handler
  calls \<^verbatim>\<open>setSelectedIndex(null)\<close> there.
\<close>

definition changeSymbol :: "props \<Rightarrow> bool \<Rightarrow> nat \<Rightarrow> nat \<Rightarrow> chart \<Rightarrow> chart" where
  "changeSymbol p clearSelection currentIndex newIndex c =
    (case elemAt (symbolList p) newIndex of
       None \<Rightarrow> c
     | Some newSymbol \<Rightarrow>
         if newIndex \<noteq> currentIndex \<and> newSymbol \<noteq> [] then
           c\<lparr>currentSymbol := newSymbol,
             selectedIndex := (if clearSelection then None else selectedIndex c),
             emitted := emitted c @ (if onSymbolChange p then [SymbolChange newSymbol] else [])\<rparr>
         else c)"

text \<open>\<^verbatim>\<open>handleKeyDown\<close>, for the key \<^verbatim>\<open>event.key\<close>.\<close>

definition handleKeyDown :: "props \<Rightarrow> string \<Rightarrow> chart \<Rightarrow> chart" where
  "handleKeyDown p key c =
    (if key = ''Escape'' \<and> onClose p then c\<lparr>emitted := emitted c @ [CloseChart]\<rparr>
     else if key = ''ArrowLeft'' \<or> key = ''ArrowRight'' then
       (case totalCandles c of
          None \<Rightarrow> c
        | Some n \<Rightarrow>
            if n = 0 then c
            else if key = ''ArrowLeft'' then
              (case selectedIndex c of
                 None \<Rightarrow> c\<lparr>selectedIndex := Some (n - 1)\<rparr>
               | Some i \<Rightarrow> if i > 0 then c\<lparr>selectedIndex := Some (i - 1)\<rparr> else c)
            else
              (case selectedIndex c of
                 None \<Rightarrow> c\<lparr>selectedIndex := Some 0\<rparr>
               | Some i \<Rightarrow> if i < n - 1 then c\<lparr>selectedIndex := Some (i + 1)\<rparr> else c))
     else if symbolList p = [] then c
     else
       (case indexOf (symbolList p) (currentSymbol c) of
          None \<Rightarrow> c
        | Some currentIndex \<Rightarrow>
            let newIndex =
              (if key = ''ArrowUp'' then
                 (if currentIndex = 0 then length (symbolList p) - 1 else currentIndex - 1)
               else if key = ''ArrowDown'' then
                 (if currentIndex = length (symbolList p) - 1 then 0 else currentIndex + 1)
               else currentIndex)
            in changeSymbol p False currentIndex newIndex c))"

text \<open>
  \<^verbatim>\<open>handleTouchStart\<close> and \<^verbatim>\<open>handleTouchEnd\<close>: \<open>onCanvas\<close> is
  \<^verbatim>\<open>target.tagName === 'CANVAS'\<close>, \<open>x\<close> and \<open>y\<close> are \<^verbatim>\<open>clientX\<close> and \<^verbatim>\<open>clientY\<close>
  of the touch.
\<close>

definition handleTouchStart :: "props \<Rightarrow> bool \<Rightarrow> rat \<Rightarrow> rat \<Rightarrow> chart \<Rightarrow> chart" where
  "handleTouchStart p onCanvas x y c =
    (if symbolList p = [] then c
     else if onCanvas then c
     else c\<lparr>touchStartY := Some y, touchStartX := Some x\<rparr>)"

definition resetTouch :: "chart \<Rightarrow> chart" where
  "resetTouch c = c\<lparr>touchStartY := None, touchStartX := None\<rparr>"

definition minSwipeDistance :: rat where
  "minSwipeDistance = 50"

definition handleTouchEnd :: "props \<Rightarrow> bool \<Rightarrow> rat \<Rightarrow> rat \<Rightarrow> chart \<Rightarrow> chart" where
  "handleTouchEnd p onCanvas touchEndX touchEndY c =
    (case (touchStartX c, touchStartY c) of
       (Some startX, Some startY) \<Rightarrow>
         if symbolList p = [] then resetTouch c
         else if onCanvas then resetTouch c
         else
           let deltaY = \<bar>startY - touchEndY\<bar>;
               deltaX = startX - touchEndX
           in
           if \<bar>deltaX\<bar> > minSwipeDistance \<and> \<bar>deltaX\<bar> > deltaY then
             (case indexOf (symbolList p) (currentSymbol c) of
                None \<Rightarrow> resetTouch c
              | Some currentIndex \<Rightarrow>
                  let newIndex =
                    (if deltaX > 0 then
                       (if currentIndex = 0 then length (symbolList p) - 1 else currentIndex - 1)
                     else
                       (if currentIndex = length (symbolList p) - 1 then 0 else currentIndex + 1))
                  in resetTouch (changeSymbol p True currentIndex newIndex c))
           else resetTouch c
     | _ \<Rightarrow> resetTouch c)"

section \<open>JavaScript numbers\<close>

text \<open>
  A JavaScript number is an IEEE 754 binary64 value. A finite one is held as the
  rational it denotes; the two infinities and NaN are separate values. The two zeros
  are not distinguished: they differ only in the sign of a quotient by zero, which the
  model takes as that for the positive zero.
\<close>

datatype double = Finite rat | PosInf | NegInf | NaN

text \<open>The number of binary digits of a positive integer, 0 for the others.\<close>

function bitlen :: "int \<Rightarrow> int" where
  "bitlen n = (if n \<le> 0 then 0 else 1 + bitlen (n div 2))"
  by pat_completeness auto
termination
  by (relation "measure nat") auto

declare bitlen.simps [simp del]

definition pow2 :: "int \<Rightarrow> rat" where
  "pow2 e = (if e \<ge> 0 then 2 ^ nat e else 1 / 2 ^ nat (- e))"

text \<open>
  The binary exponent of a rational that is not zero: the \<open>e\<close> with
  \<open>2^e \<le> |x| < 2^(e+1)\<close>. For zero it is 0.
\<close>

definition exponent :: "rat \<Rightarrow> int" where
  "exponent x =
    (if x = 0 then 0
     else if \<bar>x\<bar> \<ge> 1 then bitlen \<lfloor>\<bar>x\<bar>\<rfloor> - 1
     else - bitlen (\<lceil>1 / \<bar>x\<bar>\<rceil> - 1))"

text \<open>The nearest integer, a tie going to the even one.\<close>

definition roundHalfEven :: "rat \<Rightarrow> int" where
  "roundHalfEven x =
    (let f = \<lfloor>x\<rfloor>; r = x - of_int f
     in if r < 1 / 2 then f else if r > 1 / 2 then f + 1 else if even f then f else f + 1)"

text \<open>
  The spacing of the binary64 values around \<open>x\<close>: 52 fraction bits below the
  exponent, the exponent being at least -1022 (below it the values are subnormal).
\<close>

definition ulp :: "rat \<Rightarrow> rat" where
  "ulp x = pow2 (max (exponent x) (- 1022) - 52)"

text \<open>
  Rounding of an exact result to binary64, to nearest with ties to even; a result
  that rounds to \<open>2^1024\<close> or beyond in magnitude is an infinity.
\<close>

definition round64 :: "rat \<Rightarrow> double" where
  "round64 x =
    (if x = 0 then Finite 0
     else
       let y = of_int (roundHalfEven (x / ulp x)) * ulp x
       in if exponent y \<ge> 1024 then (if y > 0 then PosInf else NegInf)
          else Finite y)"

fun dneg :: "double \<Rightarrow> double" where
  "dneg (Finite x) = Finite (- x)"
| "dneg PosInf = NegInf"
| "dneg NegInf = PosInf"
| "dneg NaN = NaN"

text \<open>\<^verbatim>\<open>a + b\<close>\<close>

fun dadd :: "double \<Rightarrow> double \<Rightarrow> double" where
  "dadd (Finite x) (Finite y) = round64 (x + y)"
| "dadd NaN b = NaN"
| "dadd a NaN = NaN"
| "dadd PosInf NegInf = NaN"
| "dadd NegInf PosInf = NaN"
| "dadd PosInf b = PosInf"
| "dadd NegInf b = NegInf"
| "dadd (Finite x) b = b"

text \<open>\<^verbatim>\<open>a - b\<close>\<close>

definition dsub :: "double \<Rightarrow> double \<Rightarrow> double" where
  "dsub a b = dadd a (dneg b)"

fun dsign :: "double \<Rightarrow> int" where
  "dsign (Finite x) = (if x < 0 then - 1 else if x = 0 then 0 else 1)"
| "dsign PosInf = 1"
| "dsign NegInf = - 1"
| "dsign NaN = 0"

definition signedInf :: "int \<Rightarrow> double" where
  "signedInf s = (if s < 0 then NegInf else PosInf)"

text \<open>\<^verbatim>\<open>a * b\<close>\<close>

fun dmul :: "double \<Rightarrow> double \<Rightarrow> double" where
  "dmul (Finite x) (Finite y) = round64 (x * y)"
| "dmul NaN b = NaN"
| "dmul a NaN = NaN"
| "dmul a b = (if dsign a * dsign b = 0 then NaN else signedInf (dsign a * dsign b))"


text \<open>\<^verbatim>\<open>a < b\<close>\<close>

fun dless :: "double \<Rightarrow> double \<Rightarrow> bool" where
  "dless (Finite x) (Finite y) = (x < y)"
| "dless NaN b = False"
| "dless a NaN = False"
| "dless NegInf b = (b \<noteq> NegInf)"
| "dless a PosInf = (a \<noteq> PosInf)"
| "dless a b = False"

definition dmin :: "double \<Rightarrow> double \<Rightarrow> double" where
  "dmin a b = (if a = NaN \<or> b = NaN then NaN else if dless b a then b else a)"

definition dmax :: "double \<Rightarrow> double \<Rightarrow> double" where
  "dmax a b = (if a = NaN \<or> b = NaN then NaN else if dless a b then b else a)"

text \<open>
  \<^verbatim>\<open>Math.min(...xs)\<close> and \<^verbatim>\<open>Math.max(...xs)\<close>: NaN when an argument is NaN,
  \<open>Infinity\<close> and \<open>-Infinity\<close> for no argument.
\<close>

definition math_min :: "double list \<Rightarrow> double" where
  "math_min xs = fold dmin xs PosInf"

definition math_max :: "double list \<Rightarrow> double" where
  "math_max xs = fold dmax xs NegInf"

text \<open>Truthiness of a number: zero and NaN are falsy.\<close>

definition dtruthy :: "double \<Rightarrow> bool" where
  "dtruthy d = (d \<noteq> Finite 0 \<and> d \<noteq> NaN)"

section \<open>Signal chart: price scale\<close>

text \<open>
  The price scale of \<^verbatim>\<open>drawChart\<close>, in the arithmetic of JavaScript numbers.
  \<^verbatim>\<open>drawChart\<close> returns before it scales when there is no candle;
  \<^verbatim>\<open>maxPrice - minPrice || 1\<close> replaces a range that is zero (or NaN) by one; the
  literal \<^verbatim>\<open>0.1\<close> is the binary64 value nearest to a tenth.
\<close>

record CandleData =
  c_open :: double
  high :: double
  low :: double
  c_close :: double
  timestamp :: nat

record scale =
  minPrice :: double
  maxPrice :: double
  priceRange :: double
  pricePadding :: double
  minPriceScaled :: double
  maxPriceScaled :: double
  scaledRange :: double

definition priceScale :: "CandleData list \<Rightarrow> scale option" where
  "priceScale candles =
    (if candles = [] then None
     else
       let highValues = map high candles;
           lowValues = map low candles;
           lo = math_min lowValues;
           hi = math_max highValues;
           range = (if dtruthy (dsub hi lo) then dsub hi lo else Finite 1);
           padding = dmul range (round64 (1 / 10));
           loScaled = dsub lo padding;
           hiScaled = dadd hi padding
       in Some \<lparr> minPrice = lo, maxPrice = hi, priceRange = range,
                 pricePadding = padding, minPriceScaled = loScaled,
                 maxPriceScaled = hiScaled, scaledRange = dsub hiScaled loScaled \<rparr>)"





section \<open>Scenarios\<close>

text \<open>
  A registration of the three callbacks both channels have, and a service object in a
  page that holds a token and whose URL the browser accepts.
\<close>

definition handlers :: callbacks where
  "handlers = Map.empty(OnError \<mapsto> 1, OnConnect \<mapsto> 2, OnDisconnect \<mapsto> 3)"

definition start :: "channel \<Rightarrow> service" where
  "start ch = init ch (Some ''token'') True"

text \<open>
  Five connection attempts that fail one after the other, each retried by the timer,
  then a \<^verbatim>\<open>disconnect()\<close> and a new \<^verbatim>\<open>connect()\<close> while the sixth socket (reference
  5) has not yet reported that it closed.
\<close>

definition exhausted :: "event list" where
  "exhausted =
    [Connect handlers, SockClose 0 1006, TimerFire, SockClose 1 1006, TimerFire,
     SockClose 2 1006, TimerFire, SockClose 3 1006, TimerFire, SockClose 4 1006, TimerFire,
     Disconnect, Connect handlers]"

text \<open>
  A candle whose four prices are all \<open>p\<close>, and the scale of the dataset that holds
  one such candle at the price 100: the padding is the binary64 value of 0.1, the
  scaled bounds are those of 99.9 and 100.1, and the scaled range is
  0.19999999999998863.
\<close>

definition flatCandle :: "rat \<Rightarrow> nat \<Rightarrow> CandleData" where
  "flatCandle p t =
    \<lparr> c_open = Finite p, high = Finite p, low = Finite p, c_close = Finite p, timestamp = t \<rparr>"


section \<open>Properties of the normalizer\<close>

lemma messageType_not_nullish: "messageType m = JStr k \<Longrightarrow> \<not> nullish m"
  by (cases m) (auto simp: messageType_def or_js_def)

lemma handleMessage_positions:
  assumes "messageType m = JStr ''positions''"
  shows "handleMessage cbs m =
    Inr (invoke cbs OnPositions
      [if isArray (messageData m) then messageData m
       else if truthy (messageData m) then JArr [messageData m] else JArr []])"
  using assms messageType_not_nullish[OF assms]
  by (simp add: handleMessage_def Let_def)

lemma handleMessage_position_update:
  assumes "messageType m = JStr ''position_update''"
  shows "handleMessage cbs m =
    Inr (invoke cbs OnPositions
      [if isArray (messageData m) then messageData m else JArr [messageData m]])"
  using assms messageType_not_nullish[OF assms]
  by (simp add: handleMessage_def Let_def)

text \<open>
  C7, as stated, fails: a \<open>positions\<close> frame whose payload is \<open>null\<close> is not an array,
  and the normalizer passes the empty array to \<^verbatim>\<open>onPositions\<close>, not the singleton
  \<open>[null]\<close>. Handler 1 is registered as \<^verbatim>\<open>onPositions\<close>.
\<close>

theorem C7_positions_null_not_wrapped:
  "handleMessage (Map.empty(OnPositions \<mapsto> 1))
      (JObj [(''type'', JStr ''positions''), (''data'', JNull)])
     = Inr [Call OnPositions 1 [JArr []]]
   \<and> handleMessage (Map.empty(OnPositions \<mapsto> 1))
      (JObj [(''type'', JStr ''positions''), (''data'', JNull)])
     \<noteq> Inr [Call OnPositions 1 [JArr [JNull]]]"
  by (simp add: handleMessage_def messageType_def messageData_def or_js_def invoke_def)

text \<open>
  C7, amended. A frame whose kind (\<^verbatim>\<open>message.event || message.type\<close>) is \<open>positions\<close>
  or \<open>position_update\<close> makes exactly one optional call, of \<^verbatim>\<open>onPositions\<close>, with an
  array: a payload that is an array is passed unchanged; for \<open>position_update\<close> any
  other payload is wrapped in a singleton array; for \<open>positions\<close> a truthy payload that
  is not an array is wrapped in a singleton array, and a falsy one (null, undefined,
  false, 0, the empty string) gives the empty array. The frame
  \<^verbatim>\<open>{"type":"positions","data":{"symbol":"BTCUSDT"}}\<close> gives
  \<^verbatim>\<open>[{"symbol":"BTCUSDT"}]\<close>.
\<close>

theorem C7_positions_payload_normalised:
  "(messageType m = JStr ''positions'' \<longrightarrow>
      handleMessage cbs m =
        Inr (invoke cbs OnPositions
          [if isArray (messageData m) then messageData m
           else if truthy (messageData m) then JArr [messageData m] else JArr []]))
   \<and> (messageType m = JStr ''position_update'' \<longrightarrow>
      handleMessage cbs m =
        Inr (invoke cbs OnPositions
          [if isArray (messageData m) then messageData m else JArr [messageData m]]))
   \<and> handleMessage (Map.empty(OnPositions \<mapsto> h))
        (JObj [(''type'', JStr ''positions''),
               (''data'', JObj [(''symbol'', JStr ''BTCUSDT'')])])
      = Inr [Call OnPositions h [JArr [JObj [(''symbol'', JStr ''BTCUSDT'')]]]]"
proof (intro conjI impI)
  assume "messageType m = JStr ''positions''"
  then show "handleMessage cbs m =
        Inr (invoke cbs OnPositions
          [if isArray (messageData m) then messageData m
           else if truthy (messageData m) then JArr [messageData m] else JArr []])"
    by (rule handleMessage_positions)
next
  assume "messageType m = JStr ''position_update''"
  then show "handleMessage cbs m =
        Inr (invoke cbs OnPositions
          [if isArray (messageData m) then messageData m else JArr [messageData m]])"
    by (rule handleMessage_position_update)
next
  show "handleMessage (Map.empty(OnPositions \<mapsto> h))
        (JObj [(''type'', JStr ''positions''),
               (''data'', JObj [(''symbol'', JStr ''BTCUSDT'')])])
      = Inr [Call OnPositions h [JArr [JObj [(''symbol'', JStr ''BTCUSDT'')]]]]"
    by (simp add: handleMessage_def messageType_def messageData_def or_js_def invoke_def)
qed

text \<open>
  The amended C7 at concrete frames: an array payload of a \<open>positions\<close> frame, the
  payload 0 of a \<open>positions\<close> frame, and a string payload of a \<open>position_update\<close> frame
  whose kind comes from the \<open>event\<close> field.
\<close>

theorem C7_positions_payload_normalised_witness:
  "messageType (JObj [(''type'', JStr ''positions''), (''data'', JArr [JNum 1, JNum 2])])
     = JStr ''positions''
   \<and> handleMessage (Map.empty(OnPositions \<mapsto> 4))
        (JObj [(''type'', JStr ''positions''), (''data'', JArr [JNum 1, JNum 2])])
     = Inr [Call OnPositions 4 [JArr [JNum 1, JNum 2]]]
   \<and> messageType (JObj [(''type'', JStr ''positions''), (''data'', JNum 0)])
     = JStr ''positions''
   \<and> handleMessage (Map.empty(OnPositions \<mapsto> 4))
        (JObj [(''type'', JStr ''positions''), (''data'', JNum 0)])
     = Inr [Call OnPositions 4 [JArr []]]
   \<and> messageType (JObj [(''event'', JStr ''position_update''), (''type'', JStr ''x''),
                        (''data'', JStr ''p'')])
     = JStr ''position_update''
   \<and> handleMessage (Map.empty(OnPositions \<mapsto> 4))
        (JObj [(''event'', JStr ''position_update''), (''type'', JStr ''x''),
               (''data'', JStr ''p'')])
     = Inr [Call OnPositions 4 [JArr [JStr ''p'']]]"
  using
    C7_positions_payload_normalised
      [of "JObj [(''type'', JStr ''positions''), (''data'', JArr [JNum 1, JNum 2])]"
          "Map.empty(OnPositions \<mapsto> 4)"]
    C7_positions_payload_normalised
      [of "JObj [(''type'', JStr ''positions''), (''data'', JNum 0)]"
          "Map.empty(OnPositions \<mapsto> 4)"]
    C7_positions_payload_normalised
      [of "JObj [(''event'', JStr ''position_update''), (''type'', JStr ''x''),
                 (''data'', JStr ''p'')]"
          "Map.empty(OnPositions \<mapsto> 4)"]
  by (simp add: messageType_def messageData_def or_js_def invoke_def)

text \<open>
  C10. The two position kinds differ on a null payload: a \<open>positions\<close> frame whose
  \<open>data\<close> is null or undefined passes the empty array to \<^verbatim>\<open>onPositions\<close>, and a
  \<open>position_update\<close> frame whose \<open>data\<close> is null passes the singleton array \<open>[null]\<close>.
\<close>

theorem C10_null_payload_differs:
  "(messageType m = JStr ''positions'' \<and> (messageData m = JNull \<or> messageData m = JUndefined)
      \<longrightarrow> handleMessage cbs m = Inr (invoke cbs OnPositions [JArr []]))
   \<and> (messageType m = JStr ''position_update'' \<and> messageData m = JNull
      \<longrightarrow> handleMessage cbs m = Inr (invoke cbs OnPositions [JArr [JNull]]))"
proof (intro conjI impI)
  assume a: "messageType m = JStr ''positions'' \<and> (messageData m = JNull \<or> messageData m = JUndefined)"
  then have "messageType m = JStr ''positions''" by simp
  from handleMessage_positions[OF this] a
  show "handleMessage cbs m = Inr (invoke cbs OnPositions [JArr []])"
    by auto
next
  assume a: "messageType m = JStr ''position_update'' \<and> messageData m = JNull"
  then have "messageType m = JStr ''position_update''" by simp
  from handleMessage_position_update[OF this] a
  show "handleMessage cbs m = Inr (invoke cbs OnPositions [JArr [JNull]])"
    by auto
qed

text \<open>
  C10 at the frames \<^verbatim>\<open>{"type":"positions","data":null}\<close>, \<^verbatim>\<open>{"type":"positions"}\<close>
  and \<^verbatim>\<open>{"type":"position_update","data":null}\<close>, with handler 2 registered.
\<close>

theorem C10_null_payload_differs_witness:
  "messageType (JObj [(''type'', JStr ''positions''), (''data'', JNull)]) = JStr ''positions''
   \<and> messageData (JObj [(''type'', JStr ''positions''), (''data'', JNull)]) = JNull
   \<and> handleMessage (Map.empty(OnPositions \<mapsto> 2))
        (JObj [(''type'', JStr ''positions''), (''data'', JNull)])
      = Inr [Call OnPositions 2 [JArr []]]
   \<and> messageType (JObj [(''type'', JStr ''positions'')]) = JStr ''positions''
   \<and> messageData (JObj [(''type'', JStr ''positions'')]) = JUndefined
   \<and> handleMessage (Map.empty(OnPositions \<mapsto> 2)) (JObj [(''type'', JStr ''positions'')])
      = Inr [Call OnPositions 2 [JArr []]]
   \<and> messageType (JObj [(''type'', JStr ''position_update''), (''data'', JNull)])
      = JStr ''position_update''
   \<and> messageData (JObj [(''type'', JStr ''position_update''), (''data'', JNull)]) = JNull
   \<and> handleMessage (Map.empty(OnPositions \<mapsto> 2))
        (JObj [(''type'', JStr ''position_update''), (''data'', JNull)])
      = Inr [Call OnPositions 2 [JArr [JNull]]]"
  using
    C10_null_payload_differs
      [of "JObj [(''type'', JStr ''positions''), (''data'', JNull)]"
          "Map.empty(OnPositions \<mapsto> 2)"]
    C10_null_payload_differs
      [of "JObj [(''type'', JStr ''positions'')]" "Map.empty(OnPositions \<mapsto> 2)"]
    C10_null_payload_differs
      [of "JObj [(''type'', JStr ''position_update''), (''data'', JNull)]"
          "Map.empty(OnPositions \<mapsto> 2)"]
  by (simp add: messageType_def messageData_def or_js_def invoke_def)

section \<open>Properties of the connection manager\<close>

lemmas eval_service =
  run_def start_def init_def handlers_def connect_def connect_try_def isConnected_def
  has_token_def onclose_def onopen_def onerror_def fire_def invoke_def
  maxReconnectAttempts_def disconnect_def reconnectTimer_def readyStateOf_def
  sock_close_def updateCallbacks_def Let_def

lemma reconnectAttempts_fire [simp]: "reconnectAttempts (fire n a s) = reconnectAttempts s"
  by (simp add: fire_def)

lemma reconnectAttempts_sock_close [simp]:
  "reconnectAttempts (sock_close r s) = reconnectAttempts s"
  by (simp add: sock_close_def)

lemma reconnectAttempts_connect [simp]:
  "reconnectAttempts (connect cbs s) = reconnectAttempts s"
  by (simp add: connect_def connect_try_def updateCallbacks_def Let_def)

lemma reconnectAttempts_disconnect [simp]:
  "reconnectAttempts (disconnect s) = reconnectAttempts s"
  by (simp add: disconnect_def Let_def split: option.splits)

lemma reconnectAttempts_onopen: "reconnectAttempts (onopen r s) \<le> reconnectAttempts s"
  by (simp add: onopen_def split: option.splits)

lemma reconnectAttempts_onmessage [simp]:
  "reconnectAttempts (onmessage f s) = reconnectAttempts s"
  by (simp add: onmessage_def split: option.splits sum.splits)

lemma reconnectAttempts_onerror [simp]:
  "reconnectAttempts (onerror t s) = reconnectAttempts s"
  by (simp add: onerror_def)

lemma reconnectAttempts_reconnectTimer [simp]:
  "reconnectAttempts (reconnectTimer s) = reconnectAttempts s"
  by (simp add: reconnectTimer_def)

lemma reconnectAttempts_onclose:
  "reconnectAttempts s \<le> maxReconnectAttempts \<Longrightarrow>
   reconnectAttempts (onclose r code s) \<le> maxReconnectAttempts"
  by (simp add: onclose_def Let_def)

text \<open>Every event keeps the bound: only \<open>onclose\<close> increments, and only below the maximum.\<close>

lemma reconnectAttempts_step:
  assumes a: "reconnectAttempts s \<le> maxReconnectAttempts"
  shows "reconnectAttempts (step s e) \<le> maxReconnectAttempts"
proof (cases e)
  case (SockOpen r)
  have "reconnectAttempts (onopen r (s\<lparr>sockets := (sockets s)[r := OPEN]\<rparr>))
          \<le> reconnectAttempts s"
    using reconnectAttempts_onopen[of r "s\<lparr>sockets := (sockets s)[r := OPEN]\<rparr>"] by simp
  with a SockOpen show ?thesis by simp
next
  case (SockClose r code)
  from a have "reconnectAttempts (onclose r code (s\<lparr>sockets := (sockets s)[r := CLOSED]\<rparr>))
          \<le> maxReconnectAttempts"
    by (intro reconnectAttempts_onclose) simp
  with a SockClose show ?thesis by simp
qed (use a in \<open>simp_all add: updateCallbacks_def\<close>)

lemma reconnectAttempts_run:
  "reconnectAttempts s \<le> maxReconnectAttempts \<Longrightarrow>
   reconnectAttempts (run s evs) \<le> maxReconnectAttempts"
  unfolding run_def
  by (induction evs arbitrary: s) (simp_all add: reconnectAttempts_step)

lemma onclose_stale: "ws s \<noteq> Some r \<Longrightarrow> onclose r code s = s"
  by (simp add: onclose_def)

lemma onclose_1008:
  assumes "ws s = Some r"
  shows "onclose r 1008 s =
    s\<lparr>isConnecting := False, ws := None, shouldReconnect := False,
      calls := calls s @ invoke (callbacks s) OnDisconnect []
               @ invoke (callbacks s) OnError
                   [JStr ''Authentication failed. Please login again.'']\<rparr>"
  using assms by (simp add: onclose_def fire_def Let_def)

lemma onclose_exhausted:
  assumes "ws s = Some r" "reconnectAttempts s = maxReconnectAttempts" "code \<noteq> 1008"
  shows "onclose r code s =
    s\<lparr>isConnecting := False, ws := None, shouldReconnect := False,
      calls := calls s @ invoke (callbacks s) OnDisconnect []
               @ invoke (callbacks s) OnError
                   [JStr ''Failed to reconnect to WebSocket server after multiple attempts'']\<rparr>"
  using assms by (simp add: onclose_def fire_def Let_def)

lemma onopen_current:
  assumes "ws s = Some r" "shouldReconnect s"
  shows "onopen r s =
    s\<lparr>isConnecting := False, reconnectAttempts := 0,
      calls := calls s @ invoke (callbacks s) OnConnect []\<rparr>"
  using assms by (simp add: onopen_def fire_def)

text \<open>
  C1: the code at the input where it departs from the claim. The socket of a connected
  account service closes with code 1006, which schedules a reconnect timer;
  \<^verbatim>\<open>disconnect()\<close> is called; the timer fires while the token is still stored. After
  \<^verbatim>\<open>disconnect()\<close> one timer is pending, \<open>shouldReconnect\<close> is false and no socket is
  live. The timer's function reads the token only, not \<open>shouldReconnect\<close>: it calls
  \<^verbatim>\<open>connect\<close>, which sets \<open>shouldReconnect\<close> to true again and creates the socket 1.
  No callback is invoked, the registration being empty after \<^verbatim>\<open>disconnect()\<close>.
\<close>

theorem C1_timer_after_disconnect_reconnects:
  "timers (run (start Account) [Connect handlers, SockClose 0 1006, Disconnect]) = 1
   \<and> \<not> shouldReconnect (run (start Account) [Connect handlers, SockClose 0 1006, Disconnect])
   \<and> sockets (run (start Account) [Connect handlers, SockClose 0 1006, Disconnect]) = [CLOSED]
   \<and> sockets (run (start Account) [Connect handlers, SockClose 0 1006, Disconnect, TimerFire])
        = [CLOSED, CONNECTING]
   \<and> ws (run (start Account) [Connect handlers, SockClose 0 1006, Disconnect, TimerFire])
        = Some 1
   \<and> shouldReconnect
        (run (start Account) [Connect handlers, SockClose 0 1006, Disconnect, TimerFire])
   \<and> calls (run (start Account) [Connect handlers, SockClose 0 1006, Disconnect, TimerFire])
        = calls (run (start Account) [Connect handlers, SockClose 0 1006, Disconnect])"
  by (simp add: eval_service)

text \<open>
  C2, as stated, fails for a close event of a socket that is no longer the current one.
  A connection is opened, \<^verbatim>\<open>disconnect()\<close> and a new \<^verbatim>\<open>connect()\<close> replace its socket
  0 by the socket 1, and then the close event of socket 0 arrives with code 1008:
  \<open>onclose\<close> returns at its first check, \<open>shouldReconnect\<close> stays true and
  \<^verbatim>\<open>onError\<close>, although registered, is not invoked.
\<close>

theorem C2_stale_close_1008_ignored:
  "callbacks (run (start Account) [Connect handlers, SockOpen 0, Disconnect, Connect handlers])
      OnError = Some 1
   \<and> shouldReconnect
        (run (start Account)
           [Connect handlers, SockOpen 0, Disconnect, Connect handlers, SockClose 0 1008])
   \<and> calls (run (start Account)
           [Connect handlers, SockOpen 0, Disconnect, Connect handlers, SockClose 0 1008])
      = calls (run (start Account) [Connect handlers, SockOpen 0, Disconnect, Connect handlers])"
  by (simp add: eval_service)

text \<open>
  C2, amended. For every close event with code 1008 of the socket that is the current
  handle of the service, whatever \<open>shouldReconnect\<close> and \<open>reconnectAttempts\<close> are: no
  reconnect timer is scheduled, \<open>shouldReconnect\<close> is set to false, and
  \<^verbatim>\<open>onError\<close>, if registered, is invoked with the authentication message (after
  \<^verbatim>\<open>onDisconnect\<close>, if registered). A close event of any other socket changes
  nothing, whatever its code, so it schedules no timer either. The state \<open>s\<close> is one
  of either channel.
\<close>

theorem C2_close_1008_current_socket:
  "(ws s = Some r \<longrightarrow>
      timers (onclose r 1008 s) = timers s
      \<and> \<not> shouldReconnect (onclose r 1008 s)
      \<and> calls (onclose r 1008 s) =
          calls s @ invoke (callbacks s) OnDisconnect []
          @ invoke (callbacks s) OnError [JStr ''Authentication failed. Please login again.'']
      \<and> sockets (onclose r 1008 s) = sockets s)
   \<and> (ws s \<noteq> Some r \<longrightarrow> onclose r code s = s)"
  by (simp add: onclose_1008 onclose_stale)

text \<open>
  The amended C2 on the scan-signal channel and on the account channel, at the close
  of the first socket with code 1008 while it is current, and at a close event of a
  socket 7 that is not.
\<close>

theorem C2_close_1008_current_socket_witness:
  "ws (run (start Client) [Connect handlers]) = Some 0
   \<and> timers (onclose 0 1008 (run (start Client) [Connect handlers])) = 0
   \<and> \<not> shouldReconnect (onclose 0 1008 (run (start Client) [Connect handlers]))
   \<and> calls (onclose 0 1008 (run (start Client) [Connect handlers])) =
        [Call OnDisconnect 3 [],
         Call OnError 1 [JStr ''Authentication failed. Please login again.'']]
   \<and> ws (run (start Account) [Connect handlers]) = Some 0
   \<and> timers (onclose 0 1008 (run (start Account) [Connect handlers])) = 0
   \<and> \<not> shouldReconnect (onclose 0 1008 (run (start Account) [Connect handlers]))
   \<and> calls (onclose 0 1008 (run (start Account) [Connect handlers])) =
        [Call OnDisconnect 3 [],
         Call OnError 1 [JStr ''Authentication failed. Please login again.'']]
   \<and> ws (run (start Account) [Connect handlers]) \<noteq> Some 7
   \<and> onclose 7 1008 (run (start Account) [Connect handlers])
        = run (start Account) [Connect handlers]"
  using
    C2_close_1008_current_socket [of "run (start Client) [Connect handlers]" 0 1008]
    C2_close_1008_current_socket [of "run (start Account) [Connect handlers]" 0 1008]
    C2_close_1008_current_socket [of "run (start Account) [Connect handlers]" 7 1008]
  by (simp add: run_def start_def init_def handlers_def connect_def connect_try_def
        isConnected_def has_token_def readyStateOf_def invoke_def Let_def)

text \<open>
  C3, as stated, fails for a close event of a socket that is no longer the current one.
  After five failed attempts \<open>reconnectAttempts\<close> is 5; a \<^verbatim>\<open>disconnect()\<close> and a
  new \<^verbatim>\<open>connect()\<close> replace the socket 5 by the socket 6. The close event of socket 5
  then arrives while \<open>reconnectAttempts\<close> is 5: \<open>onclose\<close> returns at its first
  check, \<^verbatim>\<open>onError\<close>, although registered, is not invoked, and \<open>shouldReconnect\<close>
  stays true.
\<close>

theorem C3_stale_close_at_max_attempts:
  "reconnectAttempts (run (start Client) exhausted) = 5
   \<and> callbacks (run (start Client) exhausted) OnError = Some 1
   \<and> ws (run (start Client) exhausted) = Some 6
   \<and> calls (run (start Client) (exhausted @ [SockClose 5 1006]))
        = calls (run (start Client) exhausted)
   \<and> shouldReconnect (run (start Client) (exhausted @ [SockClose 5 1006]))"
  by (simp add: eval_service exhausted_def)

text \<open>
  C3, amended. In every state a service object reaches from its initial state,
  \<open>reconnectAttempts\<close> is at most 5. A close event of the current socket that arrives
  when \<open>reconnectAttempts\<close> is 5 schedules no timer, sets \<open>shouldReconnect\<close> to false
  and invokes \<^verbatim>\<open>onError\<close>, if registered, with a terminal message (the
  authentication message for code 1008, the exhaustion message otherwise); a close
  event of a socket that is not the current one changes nothing. The open event of the
  current socket, when the attempt has not been cancelled, resets \<open>reconnectAttempts\<close>
  to 0 and invokes \<^verbatim>\<open>onConnect\<close>, if registered.
\<close>

theorem C3_attempts_bounded:
  "reconnectAttempts (run (init ch tok ok) evs) \<le> 5
   \<and> (ws s = Some r \<and> reconnectAttempts s = 5 \<longrightarrow>
        timers (onclose r code s) = timers s
        \<and> \<not> shouldReconnect (onclose r code s)
        \<and> calls (onclose r code s) =
            calls s @ invoke (callbacks s) OnDisconnect []
            @ invoke (callbacks s) OnError
                [JStr (if code = 1008 then ''Authentication failed. Please login again.''
                       else ''Failed to reconnect to WebSocket server after multiple attempts'')])
   \<and> (ws s \<noteq> Some r \<longrightarrow> onclose r code s = s)
   \<and> (ws s = Some r \<and> shouldReconnect s \<longrightarrow>
        reconnectAttempts (onopen r s) = 0
        \<and> calls (onopen r s) = calls s @ invoke (callbacks s) OnConnect [])"
proof (intro conjI impI)
  have "reconnectAttempts (init ch tok ok) \<le> maxReconnectAttempts"
    by (simp add: init_def)
  then have "reconnectAttempts (run (init ch tok ok) evs) \<le> maxReconnectAttempts"
    by (rule reconnectAttempts_run)
  then show "reconnectAttempts (run (init ch tok ok) evs) \<le> 5"
    by (simp add: maxReconnectAttempts_def)
next
  assume a: "ws s = Some r \<and> reconnectAttempts s = 5"
  then have cur: "ws s = Some r" and mx: "reconnectAttempts s = maxReconnectAttempts"
    by (simp_all add: maxReconnectAttempts_def)
  have eq: "onclose r code s =
    s\<lparr>isConnecting := False, ws := None, shouldReconnect := False,
      calls := calls s @ invoke (callbacks s) OnDisconnect []
               @ invoke (callbacks s) OnError
                [JStr (if code = 1008 then ''Authentication failed. Please login again.''
                       else ''Failed to reconnect to WebSocket server after multiple attempts'')]\<rparr>"
  proof (cases "code = 1008")
    case True
    then show ?thesis using onclose_1008[OF cur] by simp
  next
    case False
    then show ?thesis using onclose_exhausted[OF cur mx False] by simp
  qed
  show "timers (onclose r code s) = timers s" by (simp add: eq)
  show "\<not> shouldReconnect (onclose r code s)" by (simp add: eq)
  show "calls (onclose r code s) =
            calls s @ invoke (callbacks s) OnDisconnect []
            @ invoke (callbacks s) OnError
                [JStr (if code = 1008 then ''Authentication failed. Please login again.''
                       else ''Failed to reconnect to WebSocket server after multiple attempts'')]"
    by (simp add: eq)
next
  assume "ws s \<noteq> Some r"
  then show "onclose r code s = s" by (rule onclose_stale)
next
  assume a: "ws s = Some r \<and> shouldReconnect s"
  then have eq: "onopen r s =
    s\<lparr>isConnecting := False, reconnectAttempts := 0,
      calls := calls s @ invoke (callbacks s) OnConnect []\<rparr>"
    by (simp add: onopen_current)
  show "reconnectAttempts (onopen r s) = 0" by (simp add: eq)
  show "calls (onopen r s) = calls s @ invoke (callbacks s) OnConnect []" by (simp add: eq)
qed

text \<open>
  The amended C3 on a scan-signal service: after six failed attempts the bound holds;
  the sixth close of a current socket, arriving at \<open>reconnectAttempts = 5\<close>, reports
  the exhaustion; a close event of socket 5 after it was replaced changes nothing; and
  the open event of the seventh socket resets the counter.
\<close>

theorem C3_attempts_bounded_witness:
  "reconnectAttempts (run (init Client (Some ''token'') True) (exhausted @ [SockClose 6 1006]))
      \<le> 5
   \<and> ws (run (start Client) exhausted) = Some 6
   \<and> reconnectAttempts (run (start Client) exhausted) = 5
   \<and> timers (onclose 6 1006 (run (start Client) exhausted)) = 0
   \<and> \<not> shouldReconnect (onclose 6 1006 (run (start Client) exhausted))
   \<and> calls (onclose 6 1006 (run (start Client) exhausted)) =
        calls (run (start Client) exhausted)
        @ [Call OnDisconnect 3 [],
           Call OnError 1
             [JStr ''Failed to reconnect to WebSocket server after multiple attempts'']]
   \<and> ws (run (start Client) exhausted) \<noteq> Some 5
   \<and> onclose 5 1006 (run (start Client) exhausted) = run (start Client) exhausted
   \<and> shouldReconnect (run (start Client) exhausted)
   \<and> reconnectAttempts (onopen 6 (run (start Client) exhausted)) = 0
   \<and> calls (onopen 6 (run (start Client) exhausted)) =
        calls (run (start Client) exhausted) @ [Call OnConnect 2 []]"
proof -
  have st: "ws (run (start Client) exhausted) = Some 6"
      "reconnectAttempts (run (start Client) exhausted) = 5"
      "shouldReconnect (run (start Client) exhausted)"
      "timers (run (start Client) exhausted) = 0"
      "callbacks (run (start Client) exhausted) = handlers"
    by (simp_all add: eval_service exhausted_def)
  show ?thesis
    using
      C3_attempts_bounded
        [of Client "Some ''token''" True "exhausted @ [SockClose 6 1006]"
            "run (start Client) exhausted" 6 1006]
      C3_attempts_bounded
        [of Client "Some ''token''" True "exhausted @ [SockClose 6 1006]"
            "run (start Client) exhausted" 5 1006]
    by (simp add: st invoke_def handlers_def)
qed

text \<open>
  C4: the code at the input where it departs from the claim. \<^verbatim>\<open>connect()\<close> creates the
  socket 0, \<^verbatim>\<open>disconnect()\<close> closes it, a second \<^verbatim>\<open>connect()\<close> creates the socket 1.
  The browser reports the failure of socket 0 with an error event and a close event;
  \<open>onerror\<close> has no check of the reference and clears \<open>isConnecting\<close>. A third
  \<^verbatim>\<open>connect()\<close> then passes both guards while socket 1 is still connecting, and
  replaces it by the socket 2 without closing it: two sockets are live. When socket 1
  opens, \<open>onopen\<close> finds that it is not the current one and closes \<^verbatim>\<open>this.ws\<close>, which
  is the current socket 2; socket 1 stays open.
\<close>

theorem C4_stale_open_closes_current_socket:
  "sockets (run (start Account)
      [Connect handlers, Disconnect, Connect handlers, SockError 0, SockClose 0 1006,
       Connect handlers])
     = [CLOSED, CONNECTING, CONNECTING]
   \<and> liveSockets (run (start Account)
      [Connect handlers, Disconnect, Connect handlers, SockError 0, SockClose 0 1006,
       Connect handlers])
     = [1, 2]
   \<and> ws (run (start Account)
      [Connect handlers, Disconnect, Connect handlers, SockError 0, SockClose 0 1006,
       Connect handlers])
     = Some 2
   \<and> ws (run (start Account)
      [Connect handlers, Disconnect, Connect handlers, SockError 0, SockClose 0 1006,
       Connect handlers, SockOpen 1])
     = Some 2
   \<and> sockets (run (start Account)
      [Connect handlers, Disconnect, Connect handlers, SockError 0, SockClose 0 1006,
       Connect handlers, SockOpen 1])
     = [CLOSED, OPEN, CLOSING]"
  by (simp add: eval_service liveSockets_def live_def upt_rec)

lemma connect_merges_when_guarded:
  "isConnected s \<or> isConnecting s \<Longrightarrow>
   connect callbacks2 s = s\<lparr>callbacks := callbacks s ++ callbacks2\<rparr>"
  by (auto simp: connect_def updateCallbacks_def)

text \<open>
  C5: the code at the input where it departs from the claim. A connection attempt is
  in progress: after \<^verbatim>\<open>connect()\<close>, \<^verbatim>\<open>disconnect()\<close> and a second \<^verbatim>\<open>connect()\<close>
  the current socket 1 is connecting. The error and close events of the dropped socket
  0 arrive; \<open>onerror\<close>, which has no check of the reference, clears \<open>isConnecting\<close>,
  while \<^verbatim>\<open>getIsConnecting()\<close> still answers true, the socket 1 being in the state
  CONNECTING. \<^verbatim>\<open>connect(callbacks2)\<close> now passes both guards, which test the open
  state and the flag only: besides merging \<open>callbacks2\<close> it creates the socket 2 and
  makes it the current one, and the sockets 1 and 2 are live together.
\<close>

theorem C5_connect_during_attempt_creates_socket:
  "getIsConnecting (run (start Client)
      [Connect handlers, Disconnect, Connect handlers, SockError 0, SockClose 0 1006])
   \<and> \<not> isConnecting (run (start Client)
      [Connect handlers, Disconnect, Connect handlers, SockError 0, SockClose 0 1006])
   \<and> ws (run (start Client)
      [Connect handlers, Disconnect, Connect handlers, SockError 0, SockClose 0 1006])
     = Some 1
   \<and> sockets (run (start Client)
      [Connect handlers, Disconnect, Connect handlers, SockError 0, SockClose 0 1006])
     = [CLOSED, CONNECTING]
   \<and> sockets (connect (Map.empty(OnScanSignal \<mapsto> 8))
      (run (start Client)
        [Connect handlers, Disconnect, Connect handlers, SockError 0, SockClose 0 1006]))
     = [CLOSED, CONNECTING, CONNECTING]
   \<and> ws (connect (Map.empty(OnScanSignal \<mapsto> 8))
      (run (start Client)
        [Connect handlers, Disconnect, Connect handlers, SockError 0, SockClose 0 1006]))
     = Some 2
   \<and> liveSockets (connect (Map.empty(OnScanSignal \<mapsto> 8))
      (run (start Client)
        [Connect handlers, Disconnect, Connect handlers, SockError 0, SockClose 0 1006]))
     = [1, 2]
   \<and> callbacks (connect (Map.empty(OnScanSignal \<mapsto> 8))
      (run (start Client)
        [Connect handlers, Disconnect, Connect handlers, SockError 0, SockClose 0 1006]))
      OnScanSignal = Some 8"
  by (simp add: eval_service getIsConnecting_def liveSockets_def live_def upt_rec)

text \<open>
  C6. \<^verbatim>\<open>connect()\<close> on a service that is neither connected nor connecting, when
  \<^verbatim>\<open>localStorage\<close> holds no token: the \<^verbatim>\<open>try\<close> block returns without an exception
  and \<^verbatim>\<open>connect\<close> returns the state in which the callbacks are merged,
  \<^verbatim>\<open>onError\<close>, if registered, has been invoked with the message about the missing
  token, no socket has been created, the handle is what it was (none, for an idle
  service) and \<open>isConnecting\<close> is false.
\<close>

theorem C6_connect_without_token:
  "\<not> has_token s \<Longrightarrow> \<not> isConnected s \<Longrightarrow> \<not> isConnecting s \<Longrightarrow>
   connect_try
       (s\<lparr>callbacks := callbacks s ++ cbs, shouldReconnect := True, isConnecting := True\<rparr>)
     = Inr (connect cbs s)
   \<and> connect cbs s =
       s\<lparr>callbacks := callbacks s ++ cbs, shouldReconnect := True, isConnecting := False,
         calls := calls s @ invoke (callbacks s ++ cbs) OnError
                    [JStr ''No authentication token found. Please login again.'']\<rparr>
   \<and> sockets (connect cbs s) = sockets s
   \<and> ws (connect cbs s) = ws s
   \<and> \<not> isConnecting (connect cbs s)"
  by (simp add: connect_def connect_try_def fire_def has_token_def Let_def)

text \<open>
  C6 on the initial state of an account service without a token, and on one whose
  stored token is the empty string: the registered \<^verbatim>\<open>onError\<close> is invoked, and there
  is no socket and no handle.
\<close>

theorem C6_connect_without_token_witness:
  "\<not> has_token (init Account None True)
   \<and> \<not> isConnected (init Account None True)
   \<and> \<not> isConnecting (init Account None True)
   \<and> calls (connect handlers (init Account None True))
        = [Call OnError 1 [JStr ''No authentication token found. Please login again.'']]
   \<and> sockets (connect handlers (init Account None True)) = []
   \<and> ws (connect handlers (init Account None True)) = None
   \<and> \<not> isConnecting (connect handlers (init Account None True))
   \<and> \<not> has_token (init Account (Some []) True)
   \<and> calls (connect handlers (init Account (Some []) True))
        = [Call OnError 1 [JStr ''No authentication token found. Please login again.'']]
   \<and> sockets (connect handlers (init Account (Some []) True)) = []"
  using
    C6_connect_without_token [of "init Account None True" handlers]
    C6_connect_without_token [of "init Account (Some []) True" handlers]
  by (simp add: init_def has_token_def isConnected_def handlers_def invoke_def)

section \<open>Properties of the signal chart\<close>

text \<open>
  C8: the code at the input where it departs from the claim. The list is
  \<open>["A","B","C"]\<close>, the chart shows \<open>"C"\<close> and the candle 5 is selected. The key
  ArrowDown wraps to \<open>"A"\<close> and reports the change, but the selection is still the
  candle 5: \<^verbatim>\<open>handleKeyDown\<close> does not call \<^verbatim>\<open>setSelectedIndex(null)\<close>. The swipe to
  the next symbol from the same state, in \<^verbatim>\<open>handleTouchEnd\<close>, makes the same change
  and clears the selection.
\<close>

theorem C8_arrow_key_keeps_selection:
  "handleKeyDown \<lparr>symbolList = [''A'', ''B'', ''C''], onClose = False, onSymbolChange = True\<rparr>
      ''ArrowDown''
      \<lparr>currentSymbol = ''C'', selectedIndex = Some 5, touchStartX = None,
       touchStartY = None, totalCandles = Some 10, emitted = []\<rparr>
     = \<lparr>currentSymbol = ''A'', selectedIndex = Some 5, touchStartX = None,
        touchStartY = None, totalCandles = Some 10, emitted = [SymbolChange ''A'']\<rparr>
   \<and> handleTouchEnd
      \<lparr>symbolList = [''A'', ''B'', ''C''], onClose = False, onSymbolChange = True\<rparr>
      False 100 0
      \<lparr>currentSymbol = ''C'', selectedIndex = Some 5, touchStartX = Some 0,
       touchStartY = Some 0, totalCandles = Some 10, emitted = []\<rparr>
     = \<lparr>currentSymbol = ''A'', selectedIndex = None, touchStartX = None,
        touchStartY = None, totalCandles = Some 10, emitted = [SymbolChange ''A'']\<rparr>"
  by (simp add: handleKeyDown_def handleTouchEnd_def changeSymbol_def elemAt_def
        resetTouch_def minSwipeDistance_def)

section \<open>Properties of the number model\<close>

lemma bitlen_nonneg: "0 \<le> bitlen n"
proof (induction n rule: bitlen.induct)
  case (1 n)
  show ?case
  proof (cases "n \<le> 0")
    case True
    then show ?thesis by (subst bitlen.simps) simp
  next
    case False
    with 1 have "0 \<le> bitlen (n div 2)" by simp
    with False show ?thesis by (subst bitlen.simps) simp
  qed
qed

lemma bitlen_step: "0 < n \<Longrightarrow> bitlen n = 1 + bitlen (n div 2)"
  by (subst bitlen.simps) simp

lemma bitlen_pos: "0 < n \<Longrightarrow> 0 < bitlen n"
  using bitlen_step[of n] bitlen_nonneg[of "n div 2"] by simp

lemma bitlen_1: "bitlen 1 = 1"
  by (subst bitlen.simps, subst bitlen.simps) simp

lemma bitlen_bounds:
  "0 < n \<Longrightarrow> 2 ^ nat (bitlen n - 1) \<le> n \<and> n < 2 ^ nat (bitlen n)"
proof (induction n rule: bitlen.induct)
  case (1 n)
  show ?case
  proof (cases "n = 1")
    case True
    with bitlen_1 show ?thesis by simp
  next
    case False
    with 1 have h: "0 < n div 2" by simp
    from 1 h have ih: "2 ^ nat (bitlen (n div 2) - 1) \<le> n div 2"
        "n div 2 < 2 ^ nat (bitlen (n div 2))"
      by auto
    have b: "bitlen n = 1 + bitlen (n div 2)" using 1 by (simp add: bitlen_step)
    have p: "0 < bitlen (n div 2)" using h by (rule bitlen_pos)
    have e1: "nat (bitlen n - 1) = Suc (nat (bitlen (n div 2) - 1))" using b p by simp
    have e2: "nat (bitlen n) = Suc (nat (bitlen (n div 2)))" using b p by simp
    from ih show ?thesis unfolding e1 e2 by auto
  qed
qed

lemma pow2_nonneg_eq: "0 \<le> e \<Longrightarrow> pow2 e = 2 ^ nat e"
  by (simp add: pow2_def)

lemma pow2_neg_eq: "e < 0 \<Longrightarrow> pow2 e = 1 / 2 ^ nat (- e)"
  by (simp add: pow2_def)

lemma pow2_pos: "0 < pow2 e"
  by (simp add: pow2_def)

lemma exponent_bounds_ge1:
  assumes "1 \<le> \<bar>x\<bar>"
  shows "pow2 (exponent x) \<le> \<bar>x\<bar> \<and> \<bar>x\<bar> < pow2 (exponent x + 1)"
proof -
  define n where "n = \<lfloor>\<bar>x\<bar>\<rfloor>"
  have n: "0 < n" using assms by (simp add: n_def)
  have "x \<noteq> 0" using assms by auto
  then have e: "exponent x = bitlen n - 1" using assms by (simp add: exponent_def n_def)
  from bitlen_pos[OF n] have bp: "0 < bitlen n" .
  from bitlen_bounds[OF n] have b: "2 ^ nat (bitlen n - 1) \<le> n" "n < 2 ^ nat (bitlen n)"
    by auto
  have nx: "rat_of_int n \<le> \<bar>x\<bar>" by (simp add: n_def)
  have "rat_of_int (2 ^ nat (bitlen n - 1)) \<le> rat_of_int n"
    using b(1) by (simp only: of_int_le_iff)
  then have "(2::rat) ^ nat (bitlen n - 1) \<le> rat_of_int n" by simp
  with nx have "(2::rat) ^ nat (bitlen n - 1) \<le> \<bar>x\<bar>" by linarith
  then have l: "pow2 (bitlen n - 1) \<le> \<bar>x\<bar>" using bp by (simp add: pow2_nonneg_eq)
  have xn: "\<bar>x\<bar> < rat_of_int (n + 1)" unfolding n_def by linarith
  have "n + 1 \<le> 2 ^ nat (bitlen n)" using b(2) by simp
  then have "rat_of_int (n + 1) \<le> rat_of_int (2 ^ nat (bitlen n))"
    by (simp only: of_int_le_iff)
  then have "rat_of_int (n + 1) \<le> 2 ^ nat (bitlen n)" by simp
  with xn have "\<bar>x\<bar> < 2 ^ nat (bitlen n)" by linarith
  then have u: "\<bar>x\<bar> < pow2 (bitlen n)" using bp by (simp add: pow2_nonneg_eq)
  from l u show ?thesis by (simp add: e)
qed

lemma exponent_bounds_lt1:
  assumes "x \<noteq> 0" "\<bar>x\<bar> < 1"
  shows "pow2 (exponent x) \<le> \<bar>x\<bar> \<and> \<bar>x\<bar> < pow2 (exponent x + 1)"
proof -
  define y where "y = 1 / \<bar>x\<bar>"
  define m where "m = \<lceil>y\<rceil> - 1"
  have x0: "0 < \<bar>x\<bar>" using assms by simp
  have y1: "1 < y" using assms x0 by (simp add: y_def)
  have m: "0 < m" using y1 unfolding m_def by linarith
  have e: "exponent x = - bitlen m" using assms by (simp add: exponent_def m_def y_def)
  from bitlen_pos[OF m] have bp: "0 < bitlen m" .
  from bitlen_bounds[OF m] have b: "2 ^ nat (bitlen m - 1) \<le> m" "m < 2 ^ nat (bitlen m)"
    by auto
  have my: "rat_of_int m < y" "y \<le> rat_of_int (m + 1)" unfolding m_def by linarith+
  have "rat_of_int (2 ^ nat (bitlen m - 1)) \<le> rat_of_int m"
    using b(1) by (simp only: of_int_le_iff)
  then have "(2::rat) ^ nat (bitlen m - 1) \<le> rat_of_int m" by simp
  with my(1) have lo: "2 ^ nat (bitlen m - 1) < y" by linarith
  have "m + 1 \<le> 2 ^ nat (bitlen m)" using b(2) by simp
  then have "rat_of_int (m + 1) \<le> rat_of_int (2 ^ nat (bitlen m))"
    by (simp only: of_int_le_iff)
  then have "rat_of_int (m + 1) \<le> 2 ^ nat (bitlen m)" by simp
  with my(2) have hi: "y \<le> 2 ^ nat (bitlen m)" by linarith
  have xy: "\<bar>x\<bar> = 1 / y" using x0 by (simp add: y_def)
  have y0: "0 < y" using y1 by simp
  have "1 / (2::rat) ^ nat (bitlen m) \<le> 1 / y" using hi y0 by (simp add: frac_le)
  then have l: "pow2 (- bitlen m) \<le> \<bar>x\<bar>" using bp by (simp add: pow2_neg_eq xy)
  have u: "\<bar>x\<bar> < pow2 (- bitlen m + 1)"
  proof (cases "bitlen m = 1")
    case True
    then show ?thesis using assms by (simp add: pow2_def)
  next
    case False
    with bp have neg: "- bitlen m + 1 < 0" by simp
    have eq: "nat (- (- bitlen m + 1)) = nat (bitlen m - 1)" by simp
    have "1 / y < 1 / 2 ^ nat (bitlen m - 1)" using lo by (simp add: frac_less2)
    then show ?thesis unfolding xy pow2_neg_eq[OF neg] eq .
  qed
  from l u show ?thesis by (simp add: e)
qed

text \<open>\<open>exponent\<close> is the binary exponent.\<close>

lemma exponent_bounds:
  "x \<noteq> 0 \<Longrightarrow> pow2 (exponent x) \<le> \<bar>x\<bar> \<and> \<bar>x\<bar> < pow2 (exponent x + 1)"
  using exponent_bounds_ge1[of x] exponent_bounds_lt1[of x] by (cases "1 \<le> \<bar>x\<bar>") auto

lemma ulp_pos: "0 < ulp x"
  by (simp add: ulp_def pow2_pos)

lemma roundHalfEven_error: "\<bar>of_int (roundHalfEven t) - t\<bar> \<le> 1 / 2"
proof -
  have "0 \<le> t - of_int \<lfloor>t\<rfloor>" "t - of_int \<lfloor>t\<rfloor> < 1" by linarith+
  then show ?thesis by (auto simp: roundHalfEven_def Let_def)
qed

text \<open>
  A finite result of \<open>round64\<close> is a multiple of the spacing at \<open>x\<close> and lies within
  half of it from \<open>x\<close>.
\<close>

lemma round64_correctly_rounded:
  assumes "round64 x = Finite y"
  shows "(\<exists>n. y = of_int n * ulp x) \<and> \<bar>y - x\<bar> \<le> ulp x / 2"
proof (cases "x = 0")
  case True
  with assms have "y = 0" by (simp add: round64_def)
  with True ulp_pos[of x] show ?thesis by (auto intro: exI[of _ 0])
next
  case False
  define n where "n = roundHalfEven (x / ulp x)"
  from assms False have y: "y = of_int n * ulp x"
    by (simp add: round64_def Let_def n_def split: if_splits)
  have u: "0 < ulp x" by (rule ulp_pos)
  have "y - x = (of_int n - x / ulp x) * ulp x" using u by (simp add: y field_simps)
  then have "\<bar>y - x\<bar> = \<bar>of_int n - x / ulp x\<bar> * ulp x" using u by (simp add: abs_mult)
  also have "\<dots> \<le> (1 / 2) * ulp x"
    using roundHalfEven_error[of "x / ulp x"] u unfolding n_def
    by (intro mult_right_mono) auto
  finally have "\<bar>y - x\<bar> \<le> ulp x / 2" by simp
  with y show ?thesis by blast
qed

section \<open>Properties of the price scale\<close>




text \<open>
  The padding is absorbed when the price is large: for one flat candle at
  \<open>10^16\<close> both scaled bounds round to the price, the scaled range is zero and the
  coordinates are quotients by zero. The prices of C9 are far below.
\<close>

lemma flat_candle_padding_absorbed:
  "priceScale [flatCandle 10000000000000000 t] =
     Some \<lparr> minPrice = Finite 10000000000000000, maxPrice = Finite 10000000000000000,
            priceRange = Finite 1,
            pricePadding = Finite (3602879701896397 / 36028797018963968),
            minPriceScaled = Finite 10000000000000000,
            maxPriceScaled = Finite 10000000000000000,
            scaledRange = Finite 0 \<rparr>"
  by code_simp



end
